theory Spec2Isabelle
  imports Main "HOL-Library.Word"
begin

section \<open>Storage durations and allocation techniques of memory\_technique.hpp\<close>

text \<open>
  The header declares five variables of differing storage duration, the class
  \<open>ResourceManager\<close> and one routine, \<open>memoryAllocationDemo\<close>, which acquires
  memory in seven ways and gives it back.  The routine is straight-line code; it is
  embedded as a state transformer on an explicit program state, statement by statement.

  Conventions of the embedding.
  \<^item> \<open>int\<close> is the 32-bit two's-complement integer of the mainstream ABIs, a
    \<open>32 word\<close> read through \<open>sint\<close>.  \<open>persistentCounter++\<close> is the machine
    increment; at \<open>INT_MAX\<close> ISO C++ leaves its effect undefined and the embedding
    takes the wrap-around of the hardware instruction.
  \<^item> An address is a natural number and \<open>0\<close> is the null pointer.
  \<^item> The free store is a list of live blocks, newest first.  Each block remembers the
    form by which it was acquired, as an allocation sanitizer does, and every release
    operation checks it: releasing with the wrong form, or releasing an address that is
    not live, is undefined behaviour and is an \<open>Inl\<close> result.
  \<^item> The free store is unbounded: \<open>new\<close> does not throw and \<open>malloc\<close> does not
    return null.
  \<^item> The header makes the default constructor of \<open>ResourceManager\<close> private, so a
    conforming compiler rejects the array form of \<open>new\<close> in the routine (the
    comment beside it says as much).  The embedding describes what the statements of the
    routine perform once that access is granted.
\<close>

subsection \<open>Values\<close>

type_synonym int32 = "32 word"
type_synonym addr = nat

text \<open>Undefined behaviour that the operations of the routine can run into.\<close>

datatype ub = MismatchedRelease | InvalidPointer | UninitializedRead

definition bind_ub :: "ub + 'a \<Rightarrow> ('a \<Rightarrow> ub + 'b) \<Rightarrow> ub + 'b" where
  "bind_ub m f = (case m of Inl e \<Rightarrow> Inl e | Inr x \<Rightarrow> f x)"

text \<open>
  \<open>const int immutableGlobal = 5;\<close>  A constant of the embedding: it is no part of
  the program state and no operation has it as a target.
\<close>

definition immutableGlobal :: int32 where
  "immutableGlobal = 5"

text \<open>
  \<open>class ResourceManager\<close>: the two non-static data members.
  \<open>const int instanceId = 5;\<close> carries a default member initializer;
  \<open>int resourceHandle;\<close> carries none, so a constructor that does not mention it
  leaves it indeterminate (\<open>None\<close>).
\<close>

record ResourceManager =
  instanceId :: int32
  resourceHandle :: "int32 option"

definition instanceId_default :: int32 where
  "instanceId_default = 5"

text \<open>
  \<open>sizeof(ResourceManager)\<close>: two \<open>int\<close> members of four bytes each.  Only the
  size of the raw block depends on it.
\<close>

definition sizeof_ResourceManager :: nat where
  "sizeof_ResourceManager = 2 * 4"

subsection \<open>The free store\<close>

datatype alloc_form = SingleNew | ArrayNew | RawMalloc | LibraryInternal

datatype contents =
    IntObj int32
  | ObjRM ResourceManager
  | ArrRM "ResourceManager list"
  | Raw nat
  | Combined nat int32
  | Control nat addr

record block =
  acquired_by :: alloc_form
  holds :: contents

type_synonym free_store = "(addr \<times> block) list"

fun top_addr :: "free_store \<Rightarrow> addr" where
  "top_addr [] = 0"
| "top_addr ((a, b) # h) = max a (top_addr h)"

definition fresh :: "free_store \<Rightarrow> addr" where
  "fresh h = Suc (top_addr h)"

definition remove_block :: "addr \<Rightarrow> free_store \<Rightarrow> free_store" where
  "remove_block a h = filter (\<lambda>(k, b). k \<noteq> a) h"

subsection \<open>Program state\<close>

text \<open>
  The variables of static storage duration that can change (lines 8--20 of the header,
  the static data member of the class, the static local of the routine), the
  \<open>int\<close> objects that callers own and can pass by pointer or reference, and the
  free store.
\<close>

record state =
  globalVariable :: int32
  fileLocalVariable :: int32
  externallyDefinedVariable :: int32
  hardwareRegister :: int32
  sharedInstanceCounter :: int32
  persistentCounter :: int32
  memory :: "addr \<Rightarrow> int32 option"
  heap :: free_store

text \<open>
  The state when \<open>main\<close> starts.  The header gives the initial values of
  \<open>globalVariable\<close>, \<open>fileLocalVariable\<close>, \<open>hardwareRegister\<close> and
  \<open>persistentCounter\<close>; \<open>externallyDefinedVariable\<close> and
  \<open>sharedInstanceCounter\<close> are declared here and defined elsewhere, so their initial
  values are parameters, as are the objects of the callers.
\<close>

definition program_start :: "int32 \<Rightarrow> int32 \<Rightarrow> (addr \<Rightarrow> int32 option) \<Rightarrow> state" where
  "program_start ext shared mem =
     \<lparr> globalVariable = 1, fileLocalVariable = 2, externallyDefinedVariable = ext,
       hardwareRegister = 4, sharedInstanceCounter = shared, persistentCounter = 6,
       memory = mem, heap = [] \<rparr>"

subsection \<open>Aggregate initialization of a fixed-size array\<close>

text \<open>
  \<open>int a[n] = {x\<^sub>1, \<dots>, x\<^sub>k}\<close> with \<open>k \<le> n\<close>: the listed elements, then
  value-initialized ones.  (More initializers than elements do not compile.)
\<close>

definition aggregate_init :: "nat \<Rightarrow> int32 list \<Rightarrow> int32 list" where
  "aggregate_init n xs = take n xs @ replicate (n - length xs) 0"

text \<open>
  \<open>int stackArray[3] = {0, 1};\<close>  The routine never writes to the array, so its
  value throughout the call is the initial one.
\<close>

definition stackArray :: "int32 list" where
  "stackArray = aggregate_init 3 [0, 1]"

subsection \<open>Constructors and destructor of \<open>ResourceManager\<close>\<close>

text \<open>
  Modelled from the spec: the definition of \<open>ResourceManager::ResourceManager(int)\<close>,
  which the header declares and does not define.  The spec calls it the one public
  constructor "taking a handle value", by which objects are "explicitly
  handle-initialized", and notes that the type-shared counter is "never incremented":
  the handle is stored in \<open>resourceHandle\<close>, \<open>instanceId\<close> takes its default member
  initializer from the header, and no variable of the program changes.
\<close>

definition ResourceManager_ctor :: "int32 \<Rightarrow> state \<Rightarrow> ResourceManager \<times> state" where
  "ResourceManager_ctor handle s =
     (\<lparr> instanceId = instanceId_default, resourceHandle = Some handle \<rparr>, s)"

text \<open>
  Modelled from the spec: the definition of the private default constructor
  \<open>ResourceManager::ResourceManager()\<close>, which the header declares and does not
  define.  The spec gives it no behaviour of its own: \<open>instanceId\<close> takes its default
  member initializer, \<open>resourceHandle\<close> stays indeterminate, and no variable of the
  program changes.
\<close>

definition ResourceManager_default_ctor :: "state \<Rightarrow> ResourceManager \<times> state" where
  "ResourceManager_default_ctor s =
     (\<lparr> instanceId = instanceId_default, resourceHandle = None \<rparr>, s)"

text \<open>
  The class declares no destructor, so it has the implicit one, which runs no code.
\<close>

definition ResourceManager_dtor :: "ResourceManager \<Rightarrow> state \<Rightarrow> state" where
  "ResourceManager_dtor x s = s"

subsection \<open>Acquiring and releasing memory\<close>

definition allocate :: "alloc_form \<Rightarrow> contents \<Rightarrow> state \<Rightarrow> addr \<times> state" where
  "allocate f c s =
     (let a = fresh (heap s)
      in (a, s\<lparr> heap := (a, \<lparr> acquired_by = f, holds = c \<rparr>) # heap s \<rparr>))"

text \<open>\<open>new int(v)\<close>\<close>

definition new_int :: "int32 \<Rightarrow> state \<Rightarrow> addr \<times> state" where
  "new_int v s = allocate SingleNew (IntObj v) s"

text \<open>\<open>new ResourceManager(handle)\<close>\<close>

definition new_ResourceManager :: "int32 \<Rightarrow> state \<Rightarrow> addr \<times> state" where
  "new_ResourceManager handle s =
     (let (obj, s1) = ResourceManager_ctor handle s
      in allocate SingleNew (ObjRM obj) s1)"

text \<open>\<open>new ResourceManager[n]\<close>: \<open>n\<close> elements, default-constructed in order.\<close>

fun default_construct_n :: "nat \<Rightarrow> state \<Rightarrow> ResourceManager list \<times> state" where
  "default_construct_n 0 s = ([], s)"
| "default_construct_n (Suc n) s =
     (let (x, s1) = ResourceManager_default_ctor s;
          (xs, s2) = default_construct_n n s1
      in (x # xs, s2))"

definition new_ResourceManager_array :: "nat \<Rightarrow> state \<Rightarrow> addr \<times> state" where
  "new_ResourceManager_array n s =
     (let (objs, s1) = default_construct_n n s
      in allocate ArrayNew (ArrRM objs) s1)"

text \<open>\<open>malloc(n)\<close>: \<open>n\<close> bytes in which no object has been constructed.\<close>

definition op_malloc :: "nat \<Rightarrow> state \<Rightarrow> addr \<times> state" where
  "op_malloc n s = allocate RawMalloc (Raw n) s"

text \<open>
  The destructor calls of a delete expression: one for a single object, one per element
  of an array, last element first; none for an \<open>int\<close>.
\<close>

fun destroy :: "contents \<Rightarrow> state \<Rightarrow> state" where
  "destroy (ObjRM x) s = ResourceManager_dtor x s"
| "destroy (ArrRM xs) s = fold ResourceManager_dtor (rev xs) s"
| "destroy c s = s"

text \<open>
  \<open>delete p\<close>, \<open>delete[] p\<close> and \<open>free(p)\<close>.  Each accepts the null pointer and
  does nothing; otherwise \<open>p\<close> must be a live block acquired by the matching form.
  \<open>free\<close> runs no destructor.
\<close>

definition op_delete :: "addr \<Rightarrow> state \<Rightarrow> ub + state" where
  "op_delete p s =
     (if p = 0 then Inr s
      else case map_of (heap s) p of
             None \<Rightarrow> Inl InvalidPointer
           | Some b \<Rightarrow>
               if acquired_by b = SingleNew
               then (let s1 = destroy (holds b) s
                     in Inr (s1\<lparr> heap := remove_block p (heap s1) \<rparr>))
               else Inl MismatchedRelease)"

definition op_delete_array :: "addr \<Rightarrow> state \<Rightarrow> ub + state" where
  "op_delete_array p s =
     (if p = 0 then Inr s
      else case map_of (heap s) p of
             None \<Rightarrow> Inl InvalidPointer
           | Some b \<Rightarrow>
               if acquired_by b = ArrayNew
               then (let s1 = destroy (holds b) s
                     in Inr (s1\<lparr> heap := remove_block p (heap s1) \<rparr>))
               else Inl MismatchedRelease)"

definition op_free :: "addr \<Rightarrow> state \<Rightarrow> ub + state" where
  "op_free p s =
     (if p = 0 then Inr s
      else case map_of (heap s) p of
             None \<Rightarrow> Inl InvalidPointer
           | Some b \<Rightarrow>
               if acquired_by b = RawMalloc
               then Inr (s\<lparr> heap := remove_block p (heap s) \<rparr>)
               else Inl MismatchedRelease)"

subsection \<open>Smart pointers\<close>

text \<open>
  A \<open>std::shared_ptr<int>\<close> is the stored pointer and the address of its control
  block.  \<open>std::make_shared\<close> makes one block that holds the use count and the
  object; the constructor from a raw pointer makes a control block of its own, which
  holds the use count and the pointer to hand to \<open>delete\<close>.  The destructor of the
  last owner gives everything back; an earlier owner only lowers the count.
\<close>

record shared_ptr =
  stored :: addr
  control :: addr

definition make_shared_int :: "int32 \<Rightarrow> state \<Rightarrow> shared_ptr \<times> state" where
  "make_shared_int v s =
     (let (a, s1) = allocate LibraryInternal (Combined 1 v) s
      in (\<lparr> stored = a, control = a \<rparr>, s1))"

definition shared_ptr_from_raw :: "addr \<Rightarrow> state \<Rightarrow> shared_ptr \<times> state" where
  "shared_ptr_from_raw p s =
     (let (c, s1) = allocate LibraryInternal (Control 1 p) s
      in (\<lparr> stored = p, control = c \<rparr>, s1))"

definition set_contents :: "addr \<Rightarrow> contents \<Rightarrow> free_store \<Rightarrow> free_store" where
  "set_contents a c h = map (\<lambda>(k, b). if k = a then (k, b\<lparr> holds := c \<rparr>) else (k, b)) h"

definition shared_ptr_dtor :: "shared_ptr \<Rightarrow> state \<Rightarrow> ub + state" where
  "shared_ptr_dtor sp s =
     (if control sp = 0 then Inr s
      else case map_of (heap s) (control sp) of
             None \<Rightarrow> Inl InvalidPointer
           | Some b \<Rightarrow>
               (case holds b of
                  Combined n v \<Rightarrow>
                    if n \<le> 1 then Inr (s\<lparr> heap := remove_block (control sp) (heap s) \<rparr>)
                    else Inr (s\<lparr> heap := set_contents (control sp) (Combined (n - 1) v) (heap s) \<rparr>)
                | Control n p \<Rightarrow>
                    if n \<le> 1
                    then bind_ub (op_delete p s)
                           (\<lambda>s1. Inr (s1\<lparr> heap := remove_block (control sp) (heap s1) \<rparr>))
                    else Inr (s\<lparr> heap := set_contents (control sp) (Control (n - 1) p) (heap s) \<rparr>)
                | _ \<Rightarrow> Inl InvalidPointer))"

text \<open>
  A \<open>std::unique_ptr<int>\<close> is the owned pointer; \<open>std::make_unique\<close> acquires the
  object with \<open>new\<close> and the destructor releases it with \<open>delete\<close>.
\<close>

definition make_unique_int :: "int32 \<Rightarrow> state \<Rightarrow> addr \<times> state" where
  "make_unique_int v s = new_int v s"

definition unique_ptr_dtor :: "addr \<Rightarrow> state \<Rightarrow> ub + state" where
  "unique_ptr_dtor p s = op_delete p s"

subsection \<open>Reading an object through a pointer\<close>

text \<open>
  \<open>p[i]\<close> for a \<open>ResourceManager* p\<close>, and its two members.  Reading where no object
  has been constructed, or a member that no constructor has set, reads an indeterminate
  value.
\<close>

definition read_ResourceManager :: "addr \<Rightarrow> nat \<Rightarrow> state \<Rightarrow> ub + ResourceManager" where
  "read_ResourceManager p i s =
     (case map_of (heap s) p of
        None \<Rightarrow> Inl InvalidPointer
      | Some b \<Rightarrow>
          (case holds b of
             ObjRM x \<Rightarrow> if i = 0 then Inr x else Inl InvalidPointer
           | ArrRM xs \<Rightarrow> if i < length xs then Inr (xs ! i) else Inl InvalidPointer
           | Raw n \<Rightarrow>
               if (i + 1) * sizeof_ResourceManager \<le> n then Inl UninitializedRead
               else Inl InvalidPointer
           | _ \<Rightarrow> Inl InvalidPointer))"

definition read_instanceId :: "addr \<Rightarrow> nat \<Rightarrow> state \<Rightarrow> ub + int32" where
  "read_instanceId p i s = bind_ub (read_ResourceManager p i s) (\<lambda>x. Inr (instanceId x))"

definition read_resourceHandle :: "addr \<Rightarrow> nat \<Rightarrow> state \<Rightarrow> ub + int32" where
  "read_resourceHandle p i s =
     bind_ub (read_ResourceManager p i s)
       (\<lambda>x. case resourceHandle x of None \<Rightarrow> Inl UninitializedRead | Some v \<Rightarrow> Inr v)"

text \<open>Reading an \<open>int\<close> that a caller owns, through a pointer or a reference to it.\<close>

definition read_int :: "addr \<Rightarrow> state \<Rightarrow> ub + int32" where
  "read_int p s = (case memory s p of None \<Rightarrow> Inl InvalidPointer | Some v \<Rightarrow> Inr v)"

subsection \<open>The demonstration routine\<close>

text \<open>
  \<open>int memoryAllocationDemo(int stackCopyParam, const int* readOnlyDataPtr,
  int* const fixedAddressPtr, int& referenceAlias)\<close>.  The pointers and the reference
  are the addresses they hold.  The body is embedded in the parts into which the header
  itself divides it by its banner comments, each part statement by statement, so that the
  state between two parts can be named.
\<close>

text \<open>
  "Smart pointer memory techniques": \<open>efficientSharedInt\<close>, \<open>twoStepSharedInt\<close>
  (whose argument is the explicit \<open>new int(24)\<close>) and \<open>exclusiveOwnershipInt\<close>.
\<close>

definition smart_pointer_section :: "state \<Rightarrow> (shared_ptr \<times> shared_ptr \<times> addr) \<times> state" where
  "smart_pointer_section s0 =
     (let (efficientSharedInt, s1) = make_shared_int 42 s0;
          (rawInt, s2) = new_int 24 s1;
          (twoStepSharedInt, s3) = shared_ptr_from_raw rawInt s2;
          (exclusiveOwnershipInt, s4) = make_unique_int 36 s3
      in ((efficientSharedInt, twoStepSharedInt, exclusiveOwnershipInt), s4))"

text \<open>
  "Class allocation techniques": \<open>singleHeapObject\<close>, \<open>heapObjectArray\<close>,
  \<open>uninitializedMemoryBlock\<close> and the automatic object.
\<close>

definition class_allocation_section ::
    "state \<Rightarrow> (addr \<times> addr \<times> addr \<times> ResourceManager) \<times> state" where
  "class_allocation_section s4 =
     (let (singleHeapObject, s5) = new_ResourceManager 10 s4;
          (heapObjectArray, s6) = new_ResourceManager_array 10 s5;
          (uninitializedMemoryBlock, s7) = op_malloc (10 * sizeof_ResourceManager) s6;
          (automaticObject, s8) = ResourceManager_ctor 20 s7
      in ((singleHeapObject, heapObjectArray, uninitializedMemoryBlock, automaticObject), s8))"

text \<open>
  "Cleanup section": \<open>delete singleHeapObject; delete[] heapObjectArray;
  free(uninitializedMemoryBlock);\<close>
\<close>

definition cleanup_section :: "addr \<Rightarrow> addr \<Rightarrow> addr \<Rightarrow> state \<Rightarrow> ub + state" where
  "cleanup_section singleHeapObject heapObjectArray uninitializedMemoryBlock s8 =
     bind_ub (op_delete singleHeapObject s8) (\<lambda>s9.
     bind_ub (op_delete_array heapObjectArray s9) (\<lambda>s10.
     op_free uninitializedMemoryBlock s10))"

text \<open>
  The end of the scope: once the operand of \<open>return\<close> has been evaluated, the locals
  with a destructor are destroyed in the reverse order of their declaration.
\<close>

definition destroy_locals ::
    "ResourceManager \<Rightarrow> addr \<Rightarrow> shared_ptr \<Rightarrow> shared_ptr \<Rightarrow> state \<Rightarrow> ub + state" where
  "destroy_locals automaticObject exclusiveOwnershipInt twoStepSharedInt efficientSharedInt s12 =
     (let s13 = ResourceManager_dtor automaticObject s12
      in bind_ub (unique_ptr_dtor exclusiveOwnershipInt s13) (\<lambda>s14.
         bind_ub (shared_ptr_dtor twoStepSharedInt s14) (\<lambda>s15.
         shared_ptr_dtor efficientSharedInt s15)))"

definition memoryAllocationDemo ::
    "int32 \<Rightarrow> addr \<Rightarrow> addr \<Rightarrow> addr \<Rightarrow> state \<Rightarrow> ub + (int32 \<times> state)" where
  "memoryAllocationDemo stackCopyParam readOnlyDataPtr fixedAddressPtr referenceAlias s0 =
     (let ((efficientSharedInt, twoStepSharedInt, exclusiveOwnershipInt), s4) =
            smart_pointer_section s0;
          ((singleHeapObject, heapObjectArray, uninitializedMemoryBlock, automaticObject), s8) =
            class_allocation_section s4
      in bind_ub (cleanup_section singleHeapObject heapObjectArray uninitializedMemoryBlock s8)
           (\<lambda>s11.
         let s12 = s11\<lparr> persistentCounter := persistentCounter s11 + 1 \<rparr>;
             result = stackArray ! 0
         in bind_ub (destroy_locals automaticObject exclusiveOwnershipInt twoStepSharedInt
                       efficientSharedInt s12)
              (\<lambda>s16. Inr (result, s16))))"

text \<open>A run of calls, each with its own arguments; it stops at the first undefined one.\<close>

fun call_seq :: "(int32 \<times> addr \<times> addr \<times> addr) list \<Rightarrow> state \<Rightarrow> ub + state" where
  "call_seq [] s = Inr s"
| "call_seq ((x, ro, fx, ra) # cs) s =
     bind_ub (memoryAllocationDemo x ro fx ra s) (\<lambda>(r, s1). call_seq cs s1)"

section \<open>Properties\<close>

subsection \<open>The free store\<close>

lemma top_addr_ge: "(k, b) \<in> set h \<Longrightarrow> k \<le> top_addr h"
  by (induction h) auto

lemma remove_block_above: "top_addr h < a \<Longrightarrow> remove_block a h = h"
proof -
  assume above: "top_addr h < a"
  have "\<forall>x \<in> set h. (case x of (k, b) \<Rightarrow> k \<noteq> a)"
  proof
    fix x assume "x \<in> set h"
    then have "fst x \<le> top_addr h" using top_addr_ge [of "fst x" "snd x" h] by simp
    with above show "case x of (k, b) \<Rightarrow> k \<noteq> a" by (cases x) auto
  qed
  then show ?thesis unfolding remove_block_def by (simp add: filter_id_conv)
qed

lemma remove_block_Cons:
  "remove_block a ((k, b) # h) = (if k = a then remove_block a h else (k, b) # remove_block a h)"
  by (simp add: remove_block_def)

lemma map_of_above: "top_addr h < a \<Longrightarrow> map_of h a = None"
proof -
  assume above: "top_addr h < a"
  have "a \<notin> fst ` set h"
  proof
    assume "a \<in> fst ` set h"
    then obtain b where "(a, b) \<in> set h" by auto
    then have "a \<le> top_addr h" by (rule top_addr_ge)
    with above show False by simp
  qed
  then show ?thesis by (simp add: map_of_eq_None_iff)
qed

lemma default_construct_n_state: "snd (default_construct_n n s) = s"
  by (induction n arbitrary: s) (simp_all add: ResourceManager_default_ctor_def split_def)

lemma destroy_state: "destroy c s = s"
proof (cases c)
  case (ArrRM xs)
  have "fold ResourceManager_dtor ys s = s" for ys
    by (induction ys) (simp_all add: ResourceManager_dtor_def)
  with ArrRM show ?thesis by simp
qed (simp_all add: ResourceManager_dtor_def)

subsection \<open>What one call does\<close>

text \<open>
  Every call completes without undefined behaviour, returns 0 and leaves the whole
  program state as it found it, the static local apart, which has grown by one.
\<close>

lemma demo_effect:
  "memoryAllocationDemo x ro fx ra s =
     Inr (0, s\<lparr> persistentCounter := persistentCounter s + 1 \<rparr>)"
  unfolding memoryAllocationDemo_def smart_pointer_section_def class_allocation_section_def
    cleanup_section_def destroy_locals_def make_shared_int_def new_int_def
    shared_ptr_from_raw_def make_unique_int_def new_ResourceManager_def new_ResourceManager_array_def op_malloc_def
    ResourceManager_ctor_def allocate_def unique_ptr_dtor_def
  apply (simp add: Let_def split_def default_construct_n_state)
  apply (simp add: op_delete_def op_delete_array_def op_free_def shared_ptr_dtor_def
      bind_ub_def fresh_def destroy_state remove_block_Cons remove_block_above map_of_above
      ResourceManager_dtor_def stackArray_def aggregate_init_def Let_def)
  done

lemma call_seq_effect:
  "call_seq cs s = Inr (s\<lparr> persistentCounter := persistentCounter s + of_nat (length cs) \<rparr>)"
proof (induction cs arbitrary: s)
  case Nil
  show ?case by simp
next
  case (Cons c cs)
  obtain x ro fx ra where c: "c = (x, ro, fx, ra)" by (cases c) auto
  show ?case
    by (simp add: c demo_effect bind_ub_def Cons.IH ac_simps)
qed

lemma sint_counter_small:
  assumes "n \<le> 2147483641"
  shows "sint (6 + of_nat n :: int32) = 6 + int n"
proof -
  have "(6 + of_nat n :: int32) = word_of_int (6 + int n)" by simp
  then have "sint (6 + of_nat n :: int32) = signed_take_bit 31 (6 + int n)"
    by (simp only: sint_sbintrunc') simp
  also have "\<dots> = 6 + int n"
    using assms by (intro signed_take_bit_int_eq_self) simp_all
  finally show ?thesis .
qed

lemma sint_increment:
  assumes "sint (w :: int32) < 2147483647"
  shows "sint (w + 1) = sint w + 1"
proof -
  have lower: "- (2 ^ 31) \<le> sint w"
    using sint_ge [of w] by simp
  have "sint (w + 1) = signed_take_bit 31 (sint w + 1)"
    by (simp add: sint_word_add [of w 1])
  also have "\<dots> = sint w + 1"
    using assms lower by (intro signed_take_bit_int_eq_self) simp_all
  finally show ?thesis .
qed

subsection \<open>A raw block, freshly acquired\<close>

lemma release_raw:
  "op_malloc n s = (p, s1) \<Longrightarrow>
     op_free p s1 = Inr s \<and> op_delete p s1 = Inl MismatchedRelease
     \<and> op_delete_array p s1 = Inl MismatchedRelease"
  by (auto simp: op_malloc_def allocate_def Let_def
      op_delete_def op_delete_array_def op_free_def fresh_def
      remove_block_Cons remove_block_above)

subsection \<open>The two acquiring sections, written out\<close>

text \<open>
  Each acquisition takes the next address above every live block, so the addresses and
  the blocks of a call can be written down from the top address on entry.
\<close>

lemma smart_pointer_section_eq:
  "smart_pointer_section s =
     ((\<lparr> stored = Suc (top_addr (heap s)), control = Suc (top_addr (heap s)) \<rparr>,
       \<lparr> stored = Suc (Suc (top_addr (heap s))), control = Suc (Suc (Suc (top_addr (heap s)))) \<rparr>,
       Suc (Suc (Suc (Suc (top_addr (heap s)))))),
      s\<lparr> heap :=
          (Suc (Suc (Suc (Suc (top_addr (heap s))))), \<lparr> acquired_by = SingleNew, holds = IntObj 36 \<rparr>)
        # (Suc (Suc (Suc (top_addr (heap s)))),
             \<lparr> acquired_by = LibraryInternal, holds = Control 1 (Suc (Suc (top_addr (heap s)))) \<rparr>)
        # (Suc (Suc (top_addr (heap s))), \<lparr> acquired_by = SingleNew, holds = IntObj 24 \<rparr>)
        # (Suc (top_addr (heap s)), \<lparr> acquired_by = LibraryInternal, holds = Combined 1 42 \<rparr>)
        # heap s \<rparr>)"
  by (simp add: smart_pointer_section_def make_shared_int_def new_int_def
      shared_ptr_from_raw_def make_unique_int_def allocate_def fresh_def Let_def)

lemma default_construct_n_objs:
  "fst (default_construct_n n s)
     = replicate n \<lparr> instanceId = instanceId_default, resourceHandle = None \<rparr>"
  by (induction n arbitrary: s) (simp_all add: ResourceManager_default_ctor_def split_def)

lemma class_allocation_section_eq:
  "class_allocation_section s =
     ((Suc (top_addr (heap s)), Suc (Suc (top_addr (heap s))),
       Suc (Suc (Suc (top_addr (heap s)))),
       \<lparr> instanceId = instanceId_default, resourceHandle = Some 20 \<rparr>),
      s\<lparr> heap :=
          (Suc (Suc (Suc (top_addr (heap s)))),
             \<lparr> acquired_by = RawMalloc, holds = Raw (10 * sizeof_ResourceManager) \<rparr>)
        # (Suc (Suc (top_addr (heap s))),
             \<lparr> acquired_by = ArrayNew, holds = ArrRM (replicate 10
                 \<lparr> instanceId = instanceId_default, resourceHandle = None \<rparr>) \<rparr>)
        # (Suc (top_addr (heap s)),
             \<lparr> acquired_by = SingleNew,
               holds = ObjRM \<lparr> instanceId = instanceId_default, resourceHandle = Some 10 \<rparr> \<rparr>)
        # heap s \<rparr>)"
  by (simp add: class_allocation_section_def new_ResourceManager_def
      new_ResourceManager_array_def op_malloc_def ResourceManager_ctor_def allocate_def
      fresh_def Let_def split_def default_construct_n_state default_construct_n_objs)

section \<open>The claims\<close>

text \<open>
  C1.  The routine releases each block it acquires by the matching form, and nothing it
  acquired is live when it returns.  Followed through the states of one call, from any
  state \<open>s\<close> and with any arguments:
  \<^item> the smart-pointer section leaves four more blocks on the free store and the
    class-allocation section three more;
  \<^item> \<open>singleHeapObject\<close>, \<open>heapObjectArray\<close> and \<open>uninitializedMemoryBlock\<close>
    are three different non-null addresses that were not live before the section and
    are live after it, acquired by \<open>new\<close>, by \<open>new[]\<close> and by \<open>malloc\<close>;
  \<^item> on these very blocks either of the two other release forms would be a mismatched
    release;
  \<^item> the cleanup section is \<open>delete\<close> on \<open>singleHeapObject\<close>, then \<open>delete[]\<close>
    on \<open>heapObjectArray\<close>, then \<open>free\<close> on \<open>uninitializedMemoryBlock\<close>; each
    succeeds, after each the block is no longer live, and the free store is then what
    it was before the class-allocation section;
  \<^item> the end of the scope gives back the blocks of the smart pointers, the free store
    is what it was on entry, and that state is the one the call returns.
\<close>

theorem demo_releases_what_it_acquires:
  "case smart_pointer_section s of
     ((efficientSharedInt, twoStepSharedInt, exclusiveOwnershipInt), s4) \<Rightarrow>
   case class_allocation_section s4 of
     ((singleHeapObject, heapObjectArray, uninitializedMemoryBlock, automaticObject), s8) \<Rightarrow>
       length (heap s4) = length (heap s) + 4
     \<and> length (heap s8) = length (heap s4) + 3
     \<and> distinct [0, singleHeapObject, heapObjectArray, uninitializedMemoryBlock]
     \<and> map_of (heap s4) singleHeapObject = None
     \<and> map_of (heap s4) heapObjectArray = None
     \<and> map_of (heap s4) uninitializedMemoryBlock = None
     \<and> map_option acquired_by (map_of (heap s8) singleHeapObject) = Some SingleNew
     \<and> map_option acquired_by (map_of (heap s8) heapObjectArray) = Some ArrayNew
     \<and> map_option acquired_by (map_of (heap s8) uninitializedMemoryBlock) = Some RawMalloc
     \<and> op_delete_array singleHeapObject s8 = Inl MismatchedRelease
     \<and> op_free singleHeapObject s8 = Inl MismatchedRelease
     \<and> op_delete heapObjectArray s8 = Inl MismatchedRelease
     \<and> op_free heapObjectArray s8 = Inl MismatchedRelease
     \<and> op_delete uninitializedMemoryBlock s8 = Inl MismatchedRelease
     \<and> op_delete_array uninitializedMemoryBlock s8 = Inl MismatchedRelease
     \<and> (\<exists>s9 s10 s11 s16.
            op_delete singleHeapObject s8 = Inr s9
          \<and> map_of (heap s9) singleHeapObject = None
          \<and> op_delete_array heapObjectArray s9 = Inr s10
          \<and> map_of (heap s10) heapObjectArray = None
          \<and> op_free uninitializedMemoryBlock s10 = Inr s11
          \<and> map_of (heap s11) uninitializedMemoryBlock = None
          \<and> cleanup_section singleHeapObject heapObjectArray uninitializedMemoryBlock s8
              = Inr s11
          \<and> heap s11 = heap s4
          \<and> destroy_locals automaticObject exclusiveOwnershipInt twoStepSharedInt
              efficientSharedInt (s11\<lparr> persistentCounter := persistentCounter s11 + 1 \<rparr>)
              = Inr s16
          \<and> heap s16 = heap s
          \<and> memoryAllocationDemo x ro fx ra s = Inr (stackArray ! 0, s16))"
  by (simp add: smart_pointer_section_eq class_allocation_section_eq demo_effect
      cleanup_section_def destroy_locals_def unique_ptr_dtor_def
      op_delete_def op_delete_array_def op_free_def shared_ptr_dtor_def
      bind_ub_def destroy_state remove_block_Cons remove_block_above map_of_above
      ResourceManager_dtor_def Let_def stackArray_def aggregate_init_def)

text \<open>
  C2. Whatever the four arguments and the state, the call returns the first element of
  the stack array as initialized, and that element is 0.
\<close>

theorem demo_returns_first_element:
  "(\<exists>s'. memoryAllocationDemo stackCopyParam readOnlyDataPtr fixedAddressPtr referenceAlias s
            = Inr (stackArray ! 0, s'))
   \<and> stackArray ! 0 = 0"
  by (simp add: demo_effect stackArray_def aggregate_init_def)

text \<open>
  C3, as the claim states it, fails: \<open>persistentCounter\<close> is an \<open>int\<close>, and after
  2147483642 calls from program start \<open>6 + N\<close> is \<open>2\<^sup>3\<^sup>1\<close>, which no
  \<open>int\<close> holds.  The counter then reads \<open>-2\<^sup>3\<^sup>1\<close>.
\<close>

theorem counter_after_calls_counterexample:
  "map_sum id persistentCounter
     (call_seq (replicate 2147483642 (0, 0, 0, 0)) (program_start 0 0 (map_of [])))
     = Inr 2147483648
   \<and> sint (2147483648 :: int32) = - 2147483648
   \<and> sint (2147483648 :: int32) \<noteq> 6 + 2147483642"
  by (simp add: call_seq_effect program_start_def)

text \<open>
  C3, amended.  \<open>persistentCounter\<close> is 6 at program start; every call that finds it
  below \<open>INT_MAX\<close> increments it by exactly 1; and for every \<open>N\<close> from 0 to
  2147483641 (so that \<open>6 + N\<close> does not exceed \<open>INT_MAX\<close>) its value after
  \<open>N\<close> calls, whatever their arguments, is \<open>6 + N\<close>.
\<close>

theorem counter_after_calls:
  "persistentCounter (program_start ext shared mem) = 6
   \<and> (sint (persistentCounter s) < 2147483647 \<longrightarrow>
        (\<exists>r s'. memoryAllocationDemo x ro fx ra s = Inr (r, s')
              \<and> sint (persistentCounter s') = sint (persistentCounter s) + 1))
   \<and> (length cs \<le> 2147483641 \<longrightarrow>
        (\<exists>s'. call_seq cs (program_start ext shared mem) = Inr s'
              \<and> sint (persistentCounter s') = 6 + int (length cs)))"
  by (simp add: demo_effect call_seq_effect program_start_def sint_counter_small
      sint_increment)

theorem counter_after_calls_witness:
  "sint (persistentCounter (program_start 0 0 (map_of []))) < 2147483647
   \<and> (\<exists>r s'. memoryAllocationDemo 0 0 0 0 (program_start 0 0 (map_of [])) = Inr (r, s')
            \<and> sint (persistentCounter s') = 7)
   \<and> length [(1, 0, 0, 0), (2, 0, 0, 0) :: int32 \<times> addr \<times> addr \<times> addr] \<le> 2147483641
   \<and> (\<exists>s'. call_seq [(1, 0, 0, 0), (2, 0, 0, 0)] (program_start 0 0 (map_of [])) = Inr s'
            \<and> sint (persistentCounter s') = 8)"
  using counter_after_calls [of 0 0 "map_of []" "program_start 0 0 (map_of [])" 0 0 0 0
      "[(1, 0, 0, 0), (2, 0, 0, 0)]"]
  by (simp add: program_start_def)

text \<open>
  C5.  An object made by the public constructor with handle 42 has \<open>instanceId\<close> 5 and
  \<open>resourceHandle\<close> 42.  For one acquired with \<open>new\<close>, both members read the same
  after any run of calls of the routine, which is all the code the header has; the
  object can then be released with \<open>delete\<close>, after which it is no longer there.
\<close>

theorem public_constructor_fields:
  "fst (ResourceManager_ctor 42 s) = \<lparr> instanceId = 5, resourceHandle = Some 42 \<rparr>
   \<and> (case new_ResourceManager 42 s of (p, s1) \<Rightarrow>
         read_instanceId p 0 s1 = Inr 5 \<and> read_resourceHandle p 0 s1 = Inr 42
         \<and> (\<exists>s2. call_seq cs s1 = Inr s2
                \<and> read_instanceId p 0 s2 = Inr 5 \<and> read_resourceHandle p 0 s2 = Inr 42
                \<and> (\<exists>s3. op_delete p s2 = Inr s3 \<and> heap s3 = heap s
                       \<and> read_instanceId p 0 s3 = Inl InvalidPointer)))"
  by (simp add: ResourceManager_ctor_def instanceId_default_def new_ResourceManager_def
      allocate_def Let_def call_seq_effect read_instanceId_def read_resourceHandle_def
      read_ResourceManager_def bind_ub_def op_delete_def fresh_def destroy_state
      remove_block_Cons remove_block_above map_of_above)

text \<open>
  C6.  Nothing writes \<open>sharedInstanceCounter\<close>: neither constructor, the destructor,
  the three ways of acquiring a \<open>ResourceManager\<close> on the free store, the three release
  forms when they succeed, nor a call of the routine.
\<close>

theorem shared_counter_never_modified:
  "sharedInstanceCounter (snd (ResourceManager_ctor handle s)) = sharedInstanceCounter s
   \<and> sharedInstanceCounter (snd (ResourceManager_default_ctor s)) = sharedInstanceCounter s
   \<and> sharedInstanceCounter (ResourceManager_dtor obj s) = sharedInstanceCounter s
   \<and> sharedInstanceCounter (snd (new_ResourceManager handle s)) = sharedInstanceCounter s
   \<and> sharedInstanceCounter (snd (new_ResourceManager_array n s)) = sharedInstanceCounter s
   \<and> sharedInstanceCounter (snd (op_malloc n s)) = sharedInstanceCounter s
   \<and> (case op_delete p s of Inl e \<Rightarrow> True
       | Inr s' \<Rightarrow> sharedInstanceCounter s' = sharedInstanceCounter s)
   \<and> (case op_delete_array p s of Inl e \<Rightarrow> True
       | Inr s' \<Rightarrow> sharedInstanceCounter s' = sharedInstanceCounter s)
   \<and> (case op_free p s of Inl e \<Rightarrow> True
       | Inr s' \<Rightarrow> sharedInstanceCounter s' = sharedInstanceCounter s)
   \<and> (\<exists>r s'. memoryAllocationDemo x ro fx ra s = Inr (r, s')
              \<and> sharedInstanceCounter s' = sharedInstanceCounter s)"
proof -
  have "sharedInstanceCounter (snd (new_ResourceManager_array n s)) = sharedInstanceCounter s"
    using default_construct_n_state [of n s]
    by (simp add: new_ResourceManager_array_def allocate_def Let_def split_def)
  then show ?thesis
    by (simp add: ResourceManager_ctor_def ResourceManager_default_ctor_def
        ResourceManager_dtor_def new_ResourceManager_def op_malloc_def allocate_def Let_def
        op_delete_def op_delete_array_def op_free_def destroy_state demo_effect
        split: option.split)
qed

text \<open>
  C7.  \<open>stackArray\<close> has three elements; those past the two listed initializers are
  zero, and the array holds 0, 1, 0.
\<close>

theorem stackArray_zero_filled:
  "length stackArray = 3
   \<and> stackArray = [0, 1, 0]
   \<and> (\<forall>i. length [0, 1 :: int32] \<le> i \<and> i < 3 \<longrightarrow> stackArray ! i = 0)"
proof -
  have eq: "stackArray = [0, 1, 0]"
    by (simp add: stackArray_def aggregate_init_def numeral_3_eq_3)
  have len: "length stackArray = 3"
    by (simp add: eq)
  have zero: "stackArray ! i = 0" if "2 \<le> i" "i < 3" for i
  proof -
    from that have "i = 2" by simp
    then show ?thesis by (simp add: eq)
  qed
  show ?thesis
  proof (intro conjI allI impI)
    show "length stackArray = 3" by (rule len)
    show "stackArray = [0, 1, 0]" by (rule eq)
    show "stackArray ! i = 0" if "length [0, 1 :: int32] \<le> i \<and> i < 3" for i
      using that by (intro zero) simp_all
  qed
qed

theorem stackArray_zero_filled_witness:
  "length [0, 1 :: int32] \<le> 2 \<and> (2 :: nat) < 3 \<and> stackArray ! 2 = 0"
  using stackArray_zero_filled by simp

text \<open>
  C9.  The call changes nothing but \<open>persistentCounter\<close>: the state after it is the
  state before it with that one variable advanced.  In particular the \<open>int\<close> objects
  of the callers are as they were, whichever of them the pointers and the reference
  designate.  The outcome does not depend on the four arguments, nor on the contents of
  the callers' objects, so none of them is read.
\<close>

theorem demo_frame:
  "(\<exists>r. memoryAllocationDemo x ro fx ra s
          = Inr (r, s\<lparr> persistentCounter := persistentCounter s + 1 \<rparr>))
   \<and> (\<exists>r s'. memoryAllocationDemo x ro fx ra s = Inr (r, s')
          \<and> memory s' = memory s
          \<and> read_int ro s' = read_int ro s
          \<and> read_int fx s' = read_int fx s
          \<and> read_int ra s' = read_int ra s)
   \<and> memoryAllocationDemo x' ro' fx' ra' s = memoryAllocationDemo x ro fx ra s
   \<and> memoryAllocationDemo x ro fx ra (s\<lparr> memory := m \<rparr>)
       = map_sum id (apsnd (memory_update (\<lambda>_. m))) (memoryAllocationDemo x ro fx ra s)"
  by (simp add: demo_effect read_int_def)

text \<open>
  C10.  The routine never reads the block it gets from \<open>malloc\<close>.  Reading any of
  the ten \<open>ResourceManager\<close>-sized slots of such a block is a read of uninitialized
  memory; the call completes without undefined behaviour of any kind, and the block is
  given back with \<open>free\<close> unread.
\<close>

theorem raw_block_never_read:
  "(\<exists>r s'. memoryAllocationDemo x ro fx ra s = Inr (r, s'))
   \<and> memoryAllocationDemo x ro fx ra s \<noteq> Inl UninitializedRead
   \<and> (case op_malloc (10 * sizeof_ResourceManager) s of (p, s1) \<Rightarrow>
         list_all (\<lambda>i. read_ResourceManager p i s1 = Inl UninitializedRead) [0..<10]
         \<and> op_free p s1 = Inr s)"
proof -
  have "case op_malloc (10 * sizeof_ResourceManager) s of (p, s1) \<Rightarrow>
      list_all (\<lambda>i. read_ResourceManager p i s1 = Inl UninitializedRead) [0..<10]
      \<and> op_free p s1 = Inr s"
    using release_raw [of "10 * sizeof_ResourceManager" s]
    by (cases "op_malloc (10 * sizeof_ResourceManager) s")
       (auto simp: op_malloc_def allocate_def Let_def read_ResourceManager_def
          sizeof_ResourceManager_def list_all_iff)
  then show ?thesis by (simp add: demo_effect)
qed

end
